theory Spec2Isabelle
  imports Complex_Main "HOL-Library.Sublist"
begin

section \<open>Python text primitives\<close>

text \<open>
  Python \<open>str\<close> values are modelled as HOL strings holding ASCII text, which is what the
  prompts, the tickers and the intent labels of this program are made of. The character
  classes below are Python's \<open>str.isspace\<close>, \<open>str.isalpha\<close> and \<open>str.upper\<close> on
  the code points below 128.
\<close>

definition py_isspace_char :: "char \<Rightarrow> bool" where
  "py_isspace_char c = (of_char c \<in> {9, 10, 11, 12, 13, 28, 29, 30, 31, 32 :: nat})"




text \<open>\<open>s.strip()\<close>: leading and trailing whitespace removed.\<close>

definition py_strip :: "string \<Rightarrow> string" where
  "py_strip s = rev (dropWhile py_isspace_char (rev (dropWhile py_isspace_char s)))"



text \<open>\<open>sep.join(xs)\<close>.\<close>

fun py_join :: "string \<Rightarrow> string list \<Rightarrow> string" where
  "py_join sep [] = []"
| "py_join sep [x] = x"
| "py_join sep (x # y # ys) = x @ sep @ py_join sep (y # ys)"

text \<open>\<open>needle in hay\<close> on strings: \<open>needle\<close> occurs as a contiguous run of \<open>hay\<close>.\<close>

fun py_in :: "string \<Rightarrow> string \<Rightarrow> bool" where
  "py_in needle [] = (needle = [])"
| "py_in needle (c # cs) = (prefix needle (c # cs) \<or> py_in needle cs)"

section \<open>Orchestrator: routing of a query\<close>

text \<open>
  The specialist operation \<open>process_query\<close> dispatches to, with the arguments it passes.
  One constructor per call site of \<open>Orchestrator.process_query\<close>.
\<close>

datatype handler =
    Generate_investment_thesis string
  | Generate_comparison_report "string list"
  | Compare_risks "string list"
  | Comprehensive_risk_analysis string
  | Analyze_news_batch "string list"
  | Analyze_sentiment string
  | Generate_earnings_analysis string
  | Analyze_filing_with_ai string string
  | Compare_with_ai "string list" string
  | Analyze_with_ai string string
  | Comprehensive_single_stock string string
  | Gemini_generate string

text \<open>
  The \<open>if\<close>/\<open>elif\<close> chain of \<open>process_query\<close>, given the intent label and the ticker
  list that the two classification calls produced. A Python list is true when it is not
  empty; \<open>tickers[0]\<close> is read only under that guard. The status callback has no effect
  on the control flow and is left out.
\<close>

definition route :: "string \<Rightarrow> string list \<Rightarrow> string \<Rightarrow> handler" where
  "route intent tickers query =
     (if py_in ''INVESTMENT_THESIS'' intent \<and> tickers \<noteq> [] then
        Generate_investment_thesis (hd tickers)
      else if py_in ''PEER_COMPARISON'' intent \<and> length tickers \<ge> 2 then
        Generate_comparison_report tickers
      else if py_in ''RISK'' intent \<and> tickers \<noteq> [] then
        (if length tickers > 1 then Compare_risks tickers
         else Comprehensive_risk_analysis (hd tickers))
      else if py_in ''SENTIMENT'' intent \<and> tickers \<noteq> [] then
        (if length tickers > 1 then Analyze_news_batch tickers
         else Analyze_sentiment (hd tickers))
      else if py_in ''EARNINGS'' intent \<and> tickers \<noteq> [] then
        Generate_earnings_analysis (hd tickers)
      else if py_in ''DOCUMENT'' intent \<and> tickers \<noteq> [] then
        Analyze_filing_with_ai (hd tickers) query
      else if py_in ''MARKET'' intent \<and> tickers \<noteq> [] then
        (if length tickers > 1 then Compare_with_ai tickers query
         else Analyze_with_ai (hd tickers) query)
      else if tickers \<noteq> [] then
        (if length tickers > 1 then Compare_with_ai tickers query
         else Comprehensive_single_stock (hd tickers) query)
      else Gemini_generate query)"

text \<open>The calls to the activity log and the notifier, in the order they are made.\<close>

datatype gcp_event =
    Log_activity string string string
  | Publish_analysis_complete string string string

text \<open>
  \<open>process_query\<close> after the two classification calls: \<open>run\<close> is what the selected
  specialist operation answers. The result is the response and the side-channel calls.
\<close>

definition process_query ::
  "(handler \<Rightarrow> string) \<Rightarrow> string list \<Rightarrow> string \<Rightarrow> string \<Rightarrow> string \<times> gcp_event list" where
  "process_query run tickers intent query =
     (let label = (if tickers \<noteq> [] then py_join '', '' tickers else ''GEN'');
          response = run (route intent tickers query)
      in (response,
          [Log_activity label intent ''STARTED'', Log_activity label intent ''COMPLETED'']
          @ (if tickers \<noteq> [] then [Publish_analysis_complete (hd tickers) intent response]
             else [])))"

subsection \<open>The routing table of the specification\<close>

text \<open>
  The specification's table: rules in priority order, each a keyword that the intent
  must contain (none for the last two), a least number of tickers, and the action.
\<close>

record rule =
  keyword :: "string option"
  min_tickers :: nat
  action :: "string list \<Rightarrow> string \<Rightarrow> handler"

definition rule_matches :: "rule \<Rightarrow> string \<Rightarrow> string list \<Rightarrow> bool" where
  "rule_matches r intent tickers =
     ((case keyword r of None \<Rightarrow> True | Some k \<Rightarrow> py_in k intent)
      \<and> length tickers \<ge> min_tickers r)"

fun first_match :: "rule list \<Rightarrow> string \<Rightarrow> string list \<Rightarrow> string \<Rightarrow> handler option" where
  "first_match [] intent tickers query = None"
| "first_match (r # rs) intent tickers query =
     (if rule_matches r intent tickers then Some (action r tickers query)
      else first_match rs intent tickers query)"

definition routing_table :: "rule list" where
  "routing_table =
     [\<lparr>keyword = Some ''INVESTMENT_THESIS'', min_tickers = 1,
        action = (\<lambda>T q. Generate_investment_thesis (hd T))\<rparr>,
      \<lparr>keyword = Some ''PEER_COMPARISON'', min_tickers = 2,
        action = (\<lambda>T q. Generate_comparison_report T)\<rparr>,
      \<lparr>keyword = Some ''RISK'', min_tickers = 1,
        action = (\<lambda>T q. if length T \<ge> 2 then Compare_risks T
                         else Comprehensive_risk_analysis (hd T))\<rparr>,
      \<lparr>keyword = Some ''SENTIMENT'', min_tickers = 1,
        action = (\<lambda>T q. if length T \<ge> 2 then Analyze_news_batch T
                         else Analyze_sentiment (hd T))\<rparr>,
      \<lparr>keyword = Some ''EARNINGS'', min_tickers = 1,
        action = (\<lambda>T q. Generate_earnings_analysis (hd T))\<rparr>,
      \<lparr>keyword = Some ''DOCUMENT'', min_tickers = 1,
        action = (\<lambda>T q. Analyze_filing_with_ai (hd T) q)\<rparr>,
      \<lparr>keyword = Some ''MARKET'', min_tickers = 1,
        action = (\<lambda>T q. if length T \<ge> 2 then Compare_with_ai T q
                         else Analyze_with_ai (hd T) q)\<rparr>,
      \<lparr>keyword = None, min_tickers = 1,
        action = (\<lambda>T q. if length T \<ge> 2 then Compare_with_ai T q
                         else Comprehensive_single_stock (hd T) q)\<rparr>,
      \<lparr>keyword = None, min_tickers = 0,
        action = (\<lambda>T q. Gemini_generate q)\<rparr>]"

subsection \<open>Ticker extraction\<close>




section \<open>Python values\<close>

text \<open>
  A float is a finite number (for a float proper, a binary64 value), a negative zero, an
  infinity or a NaN. Comparisons between an int and a float are exact in Python, so an
  int is compared by its value.
\<close>

datatype pyfloat = Finite rat | NegZero | PosInf | NegInf | NaN

text \<open>
  The values a metric can hold. \<open>PyObj s b\<close> is a value of any other type (a list, a
  dict): \<open>s\<close> is its \<open>str()\<close>, \<open>b\<close> its truth value; \<open>float()\<close> on it and
  an ordering comparison with a number raise \<open>TypeError\<close>.
\<close>

datatype pyval = PyNone | PyInt int | PyFloat pyfloat | PyStr string | PyObj string bool

datatype exn =
    TypeError string
  | ValueError string
  | OverflowError string
  | RuntimeError string
  | ApiError string

type_synonym pydict = "(string \<times> pyval) list"

definition has_key :: "('k \<times> 'v) list \<Rightarrow> 'k \<Rightarrow> bool" where
  "has_key d k = (map_of d k \<noteq> None)"












section \<open>Data provider: key metrics\<close>

definition metric_keys :: "string list" where
  "metric_keys =
     [''marketCap'', ''enterpriseValue'', ''trailingPE'', ''forwardPE'',
      ''pegRatio'', ''priceToBook'', ''trailingEps'', ''forwardEps'',
      ''dividendYield'', ''payoutRatio'', ''beta'', ''fiftyTwoWeekHigh'',
      ''fiftyTwoWeekLow'', ''fiftyDayAverage'', ''twoHundredDayAverage'',
      ''revenueGrowth'', ''earningsGrowth'', ''grossMargins'',
      ''operatingMargins'', ''profitMargins'', ''returnOnEquity'',
      ''returnOnAssets'', ''debtToEquity'', ''currentRatio'',
      ''quickRatio'', ''freeCashflow'', ''operatingCashflow'',
      ''totalRevenue'', ''totalDebt'', ''totalCash'',
      ''shortName'', ''longName'', ''sector'', ''industry'',
      ''fullTimeEmployees'', ''website'', ''currentPrice'',
      ''targetHighPrice'', ''targetLowPrice'', ''targetMeanPrice'',
      ''recommendationKey'', ''numberOfAnalystOpinions'']"

text \<open>
  \<open>get_key_metrics\<close>: \<open>get_stock_info\<close> is the Yahoo Finance lookup (with its retries),
  an input of the model. A response that holds nothing but an \<open>error\<close> entry is passed
  on as it is; otherwise the known keys are copied, in the order of the key list.
\<close>

definition get_key_metrics :: "(string \<Rightarrow> pydict) \<Rightarrow> string \<Rightarrow> pydict" where
  "get_key_metrics get_stock_info ticker =
     (let info = get_stock_info ticker in
      if has_key info ''error'' \<and> length info \<le> 1 then info
      else concat (map (\<lambda>key. case map_of info key of None \<Rightarrow> [] | Some v \<Rightarrow> [(key, v)])
                     metric_keys))"

section \<open>Risk agent: the risk scorer\<close>













subsection \<open>The risk table of the specification\<close>













section \<open>Python floats: rounding, conversion and formatting\<close>














subsection \<open>Fixed-point formatting\<close>

text \<open>\<open>str(n)\<close> for an int.\<close>

definition digit_char :: "nat \<Rightarrow> char" where
  "digit_char d = char_of (48 + d)"

function str_digits :: "int \<Rightarrow> string" where
  "str_digits n =
     (if n < 10 then [digit_char (nat n)]
      else str_digits (n div 10) @ [digit_char (nat (n mod 10))])"
  by pat_completeness auto
termination
  by (relation "measure nat") auto

declare str_digits.simps [simp del]

definition str_int :: "int \<Rightarrow> string" where
  "str_int n = (if n < 0 then ''-'' @ str_digits (- n) else str_digits n)"





subsection \<open>\<open>float()\<close> on a string\<close>

definition is_digit :: "char \<Rightarrow> bool" where
  "is_digit c = (48 \<le> (of_char c :: nat) \<and> (of_char c :: nat) \<le> 57)"




text \<open>The number that the digits of a string spell, underscores skipped.\<close>

definition digits_value :: "string \<Rightarrow> int" where
  "digits_value s =
     foldl (\<lambda>a c. 10 * a + (int (of_char c) - 48)) 0 (filter is_digit s)"





subsection \<open>\<open>float()\<close> and \<open>str()\<close> on a value\<close>



section \<open>Data provider: the formatting helpers\<close>



subsection \<open>The formatting rules of the specification\<close>





section \<open>Generative text service: the client\<close>

fun exn_str :: "exn \<Rightarrow> string" where
  "exn_str (TypeError m) = m"
| "exn_str (ValueError m) = m"
| "exn_str (OverflowError m) = m"
| "exn_str (RuntimeError m) = m"
| "exn_str (ApiError m) = m"

text \<open>
  What one call of a Python callable does: it returns a value or raises. A callable
  that is called repeatedly is the function from the index of the call (from 0) to
  what that call does.
\<close>

datatype 'a outcome = Returns 'a | Raises exn

text \<open>The test on \<open>str(e)\<close> that \<open>_call_with_retry\<close> retries on.\<close>

definition retryable :: "string \<Rightarrow> bool" where
  "retryable err_str =
     (py_in ''429'' err_str \<or> py_in ''503'' err_str \<or> py_in ''Resource exhausted'' err_str)"

text \<open>
  The loop \<open>for attempt in range(max_retries)\<close> of \<open>_call_with_retry\<close>, from
  \<open>attempt\<close> on: \<open>slept\<close> are the waits passed to \<open>time.sleep\<close> so far and \<open>last_err\<close>
  is the variable of that name. The result is what the helper does (return or raise),
  the number of calls of \<open>fn\<close> made and the waits. After the loop \<open>raise last_err\<close>
  with \<open>last_err\<close> still \<open>None\<close> is a \<open>TypeError\<close>.
\<close>

function call_with_retry_from ::
  "(nat \<Rightarrow> 'a outcome) \<Rightarrow> nat \<Rightarrow> nat \<Rightarrow> nat list \<Rightarrow> exn option
   \<Rightarrow> 'a outcome \<times> nat \<times> nat list" where
  "call_with_retry_from fn max_retries attempt slept last_err =
     (if attempt < max_retries then
        (case fn attempt of
           Returns r \<Rightarrow> (Returns r, attempt + 1, slept)
         | Raises e \<Rightarrow>
             if retryable (exn_str e) then
               call_with_retry_from fn max_retries (attempt + 1)
                 (slept @ [2 ^ attempt + 1]) (Some e)
             else (Raises e, attempt + 1, slept))
      else
        (case last_err of
           Some e \<Rightarrow> (Raises e, attempt, slept)
         | None \<Rightarrow>
             (Raises (TypeError ''exceptions must derive from BaseException''),
              attempt, slept)))"
  by pat_completeness auto
termination
  by (relation "measure (\<lambda>(fn, max_retries, attempt, slept, last_err). max_retries - attempt)")
    auto

definition call_with_retry :: "(nat \<Rightarrow> 'a outcome) \<Rightarrow> nat \<Rightarrow> 'a outcome \<times> nat \<times> nat list" where
  "call_with_retry fn max_retries = call_with_retry_from fn max_retries 0 [] None"

text \<open>
  A request to the model: the prompt, the system instruction in force and the generation
  configuration.
\<close>

record request =
  prompt :: string
  system_instruction :: "string option"
  temperature :: rat
  max_output_tokens :: nat

text \<open>A response of the model: reading its \<open>text\<close> gives the text or raises.\<close>

type_synonym response = "exn + string"

text \<open>
  \<open>GeminiClient.generate\<close>. \<open>generate_content\<close> is the remote model: what its
  successive calls for a request do. A system instruction that is \<open>None\<close> or empty
  leaves the client's default model in place. Every exception becomes an error string.
\<close>

definition make_request :: "string \<Rightarrow> string option \<Rightarrow> rat \<Rightarrow> nat \<Rightarrow> request" where
  "make_request prompt_text system_instr temp max_tokens =
     \<lparr>prompt = prompt_text,
      system_instruction =
        (case system_instr of None \<Rightarrow> None | Some s \<Rightarrow> if s \<noteq> [] then Some s else None),
      temperature = temp, max_output_tokens = max_tokens\<rparr>"

definition generate ::
  "(request \<Rightarrow> nat \<Rightarrow> response outcome) \<Rightarrow> string \<Rightarrow> string option \<Rightarrow> rat \<Rightarrow> nat \<Rightarrow> string" where
  "generate generate_content prompt_text system_instr temp max_tokens =
     (let req = make_request prompt_text system_instr temp max_tokens
      in case call_with_retry (generate_content req) 4 of
           (Returns (Inr t), n, slept) \<Rightarrow> t
         | (Returns (Inl e), n, slept) \<Rightarrow> ''Error generating response: '' @ exn_str e
         | (Raises e, n, slept) \<Rightarrow> ''Error generating response: '' @ exn_str e)"

text \<open>An outcome that makes the helper wait and try again.\<close>

fun retry_signal :: "'a outcome \<Rightarrow> bool" where
  "retry_signal (Returns r) = False"
| "retry_signal (Raises e) = retryable (exn_str e)"

text \<open>The waits before the attempts up to \<open>k\<close>: 2, 3, 5, 9, ...\<close>

definition backoff_waits :: "nat \<Rightarrow> nat \<Rightarrow> nat list" where
  "backoff_waits a k = map (\<lambda>attempt. 2 ^ attempt + 1) [a..<k]"

declare call_with_retry_from.simps [simp del]

subsection \<open>Document analysis\<close>

definition MAX_TEXT_CHARS :: nat where
  "MAX_TEXT_CHARS = 60000"

text \<open>
  What PyPDF2 makes of the file: opening it raises or gives the pages, and
  \<open>extract_text()\<close> on a page raises or gives a text or \<open>None\<close>.
\<close>

type_synonym pdf_reader = "string option outcome list outcome"

text \<open>
  The loop of \<open>_extract_pdf_text\<close> from page index \<open>i\<close>: the page blocks, or \<open>None\<close>
  when a page raises.
\<close>

fun extract_pages :: "nat \<Rightarrow> string option outcome list \<Rightarrow> string list option" where
  "extract_pages i [] = Some []"
| "extract_pages i (Raises e # rest) = None"
| "extract_pages i (Returns t # rest) =
     (let text = (case t of None \<Rightarrow> [] | Some s \<Rightarrow> s) in
      case extract_pages (i + 1) rest of
        None \<Rightarrow> None
      | Some pages \<Rightarrow>
          Some (if py_strip text \<noteq> []
                then (''--- Page '' @ str_int (int (i + 1)) @ '' ---\<newline>'' @ text) # pages
                else pages))"

text \<open>\<open>_extract_pdf_text\<close>: any exception gives the empty string.\<close>

definition extract_pdf_text :: "pdf_reader \<Rightarrow> string" where
  "extract_pdf_text reader =
     (case reader of
        Raises e \<Rightarrow> []
      | Returns pages \<Rightarrow>
          (case extract_pages 0 pages of
             None \<Rightarrow> []
           | Some blocks \<Rightarrow> py_join ''\<newline>\<newline>'' blocks))"

text \<open>
  The first attempt of \<open>analyze_document\<close>: write the temporary file (\<open>tmp_write\<close> is
  the exception this raises, if any), then \<open>_upload_and_generate\<close> under the retry
  helper, then read the response's text. \<open>upload_and_generate\<close> is what the successive
  calls of that closure do (upload, wait for processing, generate on the file); a call
  that waits forever has no outcome and is not represented.
\<close>

definition upload_attempt :: "exn option \<Rightarrow> (nat \<Rightarrow> response outcome) \<Rightarrow> exn + string" where
  "upload_attempt tmp_write upload_and_generate =
     (case tmp_write of
        Some e \<Rightarrow> Inl e
      | None \<Rightarrow>
          (case call_with_retry upload_and_generate 4 of
             (Returns (Inr t), n, slept) \<Rightarrow> Inr t
           | (Returns (Inl e), n, slept) \<Rightarrow> Inl e
           | (Raises e, n, slept) \<Rightarrow> Inl e))"

definition truncation_marker :: string where
  "truncation_marker = ''\<newline>\<newline>... [text truncated] ...''"

definition fallback_prompt :: "string \<Rightarrow> string \<Rightarrow> string \<Rightarrow> string" where
  "fallback_prompt filename pdf_text query =
     ''The following is the extracted text of a financial document named ''
     @ [CHR 0x27] @ filename @ [CHR 0x27] @ ''.\<newline>\<newline>''
     @ ''DOCUMENT TEXT:\<newline>'' @ pdf_text @ ''\<newline>\<newline>''
     @ ''QUESTION / TASK:\<newline>'' @ query"

definition document_analyst_instruction :: string where
  "document_analyst_instruction =
     ''You are an expert financial document analyst. ''
     @ ''Analyse the document text provided and answer the question thoroughly.''"

text \<open>
  \<open>GeminiClient.analyze_document\<close>. The \<open>finally\<close> block that removes the temporary
  file does not change the result.
\<close>

definition analyze_document ::
  "(request \<Rightarrow> nat \<Rightarrow> response outcome) \<Rightarrow> exn option \<Rightarrow> (nat \<Rightarrow> response outcome)
   \<Rightarrow> pdf_reader \<Rightarrow> string \<Rightarrow> string \<Rightarrow> string" where
  "analyze_document generate_content tmp_write upload_and_generate reader query filename =
     (case upload_attempt tmp_write upload_and_generate of
        Inr t \<Rightarrow> t
      | Inl upload_err \<Rightarrow>
          (let pdf_text = extract_pdf_text reader in
           if pdf_text = [] then
             ''Error analyzing document: '' @ exn_str upload_err @ ''\<newline>\<newline>''
             @ ''Additionally, could not extract text from the PDF for a ''
             @ ''fallback analysis.  Please try again in a minute.''
           else
             (let pdf_text =
                (if length pdf_text > MAX_TEXT_CHARS
                 then take MAX_TEXT_CHARS pdf_text @ truncation_marker
                 else pdf_text)
              in generate generate_content (fallback_prompt filename pdf_text query)
                   (Some document_analyst_instruction) (1 / 5) 8192)))"

text \<open>The text that goes into the fallback prompt, in the specification's words.\<close>

definition spec_truncate :: "string \<Rightarrow> string" where
  "spec_truncate t =
     (if length t > 60000 then take 60000 t @ ''\<newline>\<newline>... [text truncated] ...'' else t)"

section \<open>Properties of the text primitives\<close>

lemma py_in_iff_sublist: "py_in needle hay \<longleftrightarrow> sublist needle hay"
  by (induction hay) (auto simp: sublist_Cons_right)















section \<open>Properties of the routing\<close>

lemma nonempty_iff_length: "xs \<noteq> [] \<longleftrightarrow> length xs \<ge> Suc 0"
  by (cases xs) auto

lemma length_gt1_iff: "length xs > Suc 0 \<longleftrightarrow> length xs \<ge> 2"
  by auto

text \<open>
  C1. For every intent label \<open>I\<close>, ticker list \<open>T\<close> and query, \<open>process_query\<close> selects
  exactly one handler, and it is the action of the first rule of the specification's
  table, read top to bottom, whose keyword occurs in \<open>I\<close> and whose ticker count \<open>T\<close>
  reaches; some rule always matches.
\<close>

theorem route_is_first_match:
  "first_match routing_table intent tickers query = Some (route intent tickers query)"
  by (simp add: routing_table_def route_def rule_matches_def nonempty_iff_length
      length_gt1_iff)

section \<open>Properties of the ticker extraction\<close>






section \<open>Properties of the risk scorer\<close>















section \<open>Properties of the fixed-point formatting\<close>




lemma digits_value_snoc:
  "is_digit c \<Longrightarrow> digits_value (s @ [c]) = 10 * digits_value s + (int (of_char c) - 48)"
  by (simp add: digits_value_def)





lemma digits_value_append:
  "list_all is_digit fp
   \<Longrightarrow> digits_value (ip @ fp) = digits_value ip * 10 ^ length fp + digits_value fp"
proof (induction fp rule: rev_induct)
  case Nil
  then show ?case by (simp add: digits_value_def)
next
  case (snoc c fp)
  then have c: "is_digit c" and f: "list_all is_digit fp" by simp_all
  have "digits_value (ip @ fp @ [c]) = 10 * digits_value (ip @ fp) + (int (of_char c) - 48)"
    using digits_value_snoc [OF c, of "ip @ fp"] by simp
  also have "\<dots> = 10 * (digits_value ip * 10 ^ length fp + digits_value fp) + (int (of_char c) - 48)"
    using snoc.IH [OF f] by simp
  also have "\<dots> = digits_value ip * 10 ^ length (fp @ [c]) + digits_value (fp @ [c])"
    using digits_value_snoc [OF c, of fp] by (simp add: algebra_simps)
  finally show ?case by simp
qed





section \<open>Properties of the formatting helpers\<close>






















section \<open>Properties of the retry helper and of generate\<close>

lemma retry_from_done:
  "\<not> attempt < n \<Longrightarrow> call_with_retry_from fn n attempt slept err
     = (case err of
          Some e \<Rightarrow> (Raises e, attempt, slept)
        | None \<Rightarrow> (Raises (TypeError ''exceptions must derive from BaseException''),
                   attempt, slept))"
  by (subst call_with_retry_from.simps) simp

lemma retry_from_returns:
  "attempt < n \<Longrightarrow> fn attempt = Returns r
   \<Longrightarrow> call_with_retry_from fn n attempt slept err = (Returns r, attempt + 1, slept)"
  by (subst call_with_retry_from.simps) simp

lemma retry_from_raises:
  "attempt < n \<Longrightarrow> fn attempt = Raises e \<Longrightarrow> \<not> retryable (exn_str e)
   \<Longrightarrow> call_with_retry_from fn n attempt slept err = (Raises e, attempt + 1, slept)"
  by (subst call_with_retry_from.simps) simp

lemma retry_from_retries:
  "attempt < n \<Longrightarrow> fn attempt = Raises e \<Longrightarrow> retryable (exn_str e)
   \<Longrightarrow> call_with_retry_from fn n attempt slept err
       = call_with_retry_from fn n (attempt + 1) (slept @ [2 ^ attempt + 1]) (Some e)"
  by (subst call_with_retry_from.simps) simp

lemma retry_from_stops:
  "attempt \<le> k \<Longrightarrow> k < n \<Longrightarrow> (\<forall>j. attempt \<le> j \<and> j < k \<longrightarrow> retry_signal (fn j))
   \<Longrightarrow> \<not> retry_signal (fn k)
   \<Longrightarrow> call_with_retry_from fn n attempt slept err
       = (fn k, k + 1, slept @ backoff_waits attempt k)"
proof (induction "k - attempt" arbitrary: attempt slept err)
  case 0
  then have "attempt = k" by simp
  with 0 show ?case
    by (cases "fn k") (simp_all add: retry_from_returns retry_from_raises backoff_waits_def)
next
  case (Suc d)
  then have lt: "attempt < k" by simp
  with Suc.prems have sig: "retry_signal (fn attempt)" by simp
  then obtain e where e: "fn attempt = Raises e" "retryable (exn_str e)"
    by (cases "fn attempt") auto
  have step: "call_with_retry_from fn n attempt slept err
              = call_with_retry_from fn n (attempt + 1) (slept @ [2 ^ attempt + 1]) (Some e)"
    using lt Suc.prems(2) e by (intro retry_from_retries) auto
  have "call_with_retry_from fn n (attempt + 1) (slept @ [2 ^ attempt + 1]) (Some e)
        = (fn k, k + 1, (slept @ [2 ^ attempt + 1]) @ backoff_waits (attempt + 1) k)"
    using Suc.hyps(2) lt Suc.prems by (intro Suc.hyps(1)) auto
  moreover have "backoff_waits attempt k = (2 ^ attempt + 1) # backoff_waits (attempt + 1) k"
    using lt by (simp add: backoff_waits_def upt_conv_Cons)
  ultimately show ?case using step by simp
qed

lemma retry_from_exhausts:
  "attempt < n \<Longrightarrow> (\<forall>j. attempt \<le> j \<and> j < n \<longrightarrow> retry_signal (fn j))
   \<Longrightarrow> call_with_retry_from fn n attempt slept err
       = (fn (n - 1), n, slept @ backoff_waits attempt n)"
proof (induction "n - attempt" arbitrary: attempt slept err)
  case 0
  then show ?case by simp
next
  case (Suc d)
  from Suc.prems have sig: "retry_signal (fn attempt)" by simp
  then obtain e where e: "fn attempt = Raises e" "retryable (exn_str e)"
    by (cases "fn attempt") auto
  have step: "call_with_retry_from fn n attempt slept err
              = call_with_retry_from fn n (attempt + 1) (slept @ [2 ^ attempt + 1]) (Some e)"
    using Suc.prems(1) e by (intro retry_from_retries) auto
  have w: "backoff_waits attempt n = (2 ^ attempt + 1) # backoff_waits (attempt + 1) n"
    using Suc.prems(1) by (simp add: backoff_waits_def upt_conv_Cons)
  show ?case
  proof (cases "attempt + 1 < n")
    case True
    have "call_with_retry_from fn n (attempt + 1) (slept @ [2 ^ attempt + 1]) (Some e)
          = (fn (n - 1), n, (slept @ [2 ^ attempt + 1]) @ backoff_waits (attempt + 1) n)"
      using Suc.hyps(2) True Suc.prems by (intro Suc.hyps(1)) auto
    then show ?thesis using step w by simp
  next
    case False
    then have n: "n = attempt + 1" using Suc.prems(1) by simp
    have "call_with_retry_from fn n (attempt + 1) (slept @ [2 ^ attempt + 1]) (Some e)
          = (Raises e, n, slept @ [2 ^ attempt + 1])"
      using n by (simp add: retry_from_done)
    moreover have "backoff_waits (attempt + 1) n = []" using n by (simp add: backoff_waits_def)
    ultimately show ?thesis using step w e n by simp
  qed
qed

lemma retry_from_calls:
  "attempt \<le> n \<Longrightarrow> fst (snd (call_with_retry_from fn n attempt slept err)) \<le> n"
proof (induction "n - attempt" arbitrary: attempt slept err)
  case 0
  then show ?case
    by (simp add: retry_from_done split: option.splits)
next
  case (Suc d)
  then have lt: "attempt < n" by simp
  show ?case
  proof (cases "fn attempt")
    case (Returns r)
    then show ?thesis using lt by (simp add: retry_from_returns)
  next
    case (Raises e)
    show ?thesis
    proof (cases "retryable (exn_str e)")
      case True
      have "fst (snd (call_with_retry_from fn n (attempt + 1) (slept @ [2 ^ attempt + 1]) (Some e))) \<le> n"
        using Suc.hyps(2) lt by (intro Suc.hyps(1)) auto
      then show ?thesis using lt Raises True
        by (simp add: retry_from_retries)
    next
      case False
      then show ?thesis using lt Raises
        by (simp add: retry_from_raises)
    qed
  qed
qed

lemma waits4: "backoff_waits 0 4 = [2, 3, 5, 9]"
  by (simp add: backoff_waits_def upt_rec)


lemma waits_upto4: "k < 4 \<Longrightarrow> backoff_waits 0 k = take k [2, 3, 5, 9]"
proof -
  assume "k < 4"
  then have "k = 0 \<or> k = 1 \<or> k = 2 \<or> k = 3" by arith
  then show ?thesis by (auto simp: backoff_waits_def upt_rec)
qed

lemma call_with_retry_stops:
  assumes "k < 4" and "\<forall>j<k. retry_signal (fn j)" and "\<not> retry_signal (fn k)"
  shows "call_with_retry fn 4 = (fn k, k + 1, take k [2, 3, 5, 9])"
  using retry_from_stops [of 0 k 4 fn "[]" None] assms
  by (simp add: call_with_retry_def waits_upto4)

lemma call_with_retry_exhausts:
  assumes "\<forall>j<4. retry_signal (fn j)"
  shows "\<exists>e. fn 3 = Raises e \<and> call_with_retry fn 4 = (Raises e, 4, [2, 3, 5, 9])"
proof -
  have "retry_signal (fn 3)" using assms by simp
  then obtain e where e: "fn 3 = Raises e" by (cases "fn 3") auto
  have "call_with_retry fn 4 = (fn 3, 4, [2, 3, 5, 9])"
    using retry_from_exhausts [of 0 4 fn "[]" None] assms
    by (simp add: call_with_retry_def waits4)
  with e show ?thesis by simp
qed

lemma generate_exhausts:
  assumes "\<forall>j<4. retry_signal (generate_content (make_request p si t m) j)"
  shows "\<exists>e. generate_content (make_request p si t m) 3 = Raises e
           \<and> generate generate_content p si t m = ''Error generating response: '' @ exn_str e"
proof -
  obtain e where e: "generate_content (make_request p si t m) 3 = Raises e"
    "call_with_retry (generate_content (make_request p si t m)) 4 = (Raises e, 4, [2, 3, 5, 9])"
    using call_with_retry_exhausts [OF assms] by blast
  then show ?thesis by (simp add: generate_def)
qed

text \<open>
  C5. The retry helper with its cap of 4 makes at most 4 calls. It stops at the first
  call that returns or raises an error without a rate-limit or server-busy signal (429,
  503, resource exhausted), returning that value or re-raising that error at once, having
  waited 2, 3, 5, ... seconds after each earlier attempt. When all 4 calls raise such a
  signal it has waited 2, 3, 5 and 9 seconds and raises the last error. \<open>generate\<close>
  then returns that error's text behind the prefix \<open>Error generating response:\<close>.
\<close>

theorem call_with_retry_contract:
  "fst (snd (call_with_retry fn 4)) \<le> 4
   \<and> (\<forall>k<4. (\<forall>j<k. retry_signal (fn j)) \<and> \<not> retry_signal (fn k)
          \<longrightarrow> call_with_retry fn 4 = (fn k, k + 1, take k [2, 3, 5, 9]))
   \<and> ((\<forall>j<4. retry_signal (fn j))
          \<longrightarrow> (\<exists>e. fn 3 = Raises e \<and> call_with_retry fn 4 = (Raises e, 4, [2, 3, 5, 9])))
   \<and> ((\<forall>j<4. retry_signal (generate_content (make_request p si t m) j))
          \<longrightarrow> (\<exists>e. generate_content (make_request p si t m) 3 = Raises e
                 \<and> generate generate_content p si t m
                     = ''Error generating response: '' @ exn_str e))"
proof (intro conjI allI impI)
  show "fst (snd (call_with_retry fn 4)) \<le> 4"
    unfolding call_with_retry_def by (rule retry_from_calls) simp
next
  fix k assume "k < 4" and "(\<forall>j<k. retry_signal (fn j)) \<and> \<not> retry_signal (fn k)"
  then show "call_with_retry fn 4 = (fn k, k + 1, take k [2, 3, 5, 9])"
    using call_with_retry_stops [of k fn] by blast
next
  assume "\<forall>j<4. retry_signal (fn j)"
  then show "\<exists>e. fn 3 = Raises e \<and> call_with_retry fn 4 = (Raises e, 4, [2, 3, 5, 9])"
    by (rule call_with_retry_exhausts)
next
  assume "\<forall>j<4. retry_signal (generate_content (make_request p si t m) j)"
  then show "\<exists>e. generate_content (make_request p si t m) 3 = Raises e
                 \<and> generate generate_content p si t m
                     = ''Error generating response: '' @ exn_str e"
    by (rule generate_exhausts)
qed

lemma retry_signal_429: "retry_signal (Raises (ApiError ''429 Too Many Requests''))"
  by (simp add: retryable_def)

lemma retry_signal_503: "retry_signal (Raises (ApiError ''503 Service Unavailable''))"
  by (simp add: retryable_def)

text \<open>
  Witnesses: four rate-limit errors in a row; two server-busy errors, then an answer;
  \<open>generate\<close> against a service that always answers 429.
\<close>

theorem call_with_retry_contract_witness:
  "call_with_retry (\<lambda>j. Raises (ApiError ''429 Too Many Requests'') :: string outcome) 4
     = (Raises (ApiError ''429 Too Many Requests''), 4, [2, 3, 5, 9])
   \<and> call_with_retry (\<lambda>j. if j < 2 then Raises (ApiError ''503 Service Unavailable'')
                           else Returns ''ok'') 4
     = (Returns ''ok'', 3, [2, 3])
   \<and> generate (\<lambda>req j. Raises (ApiError ''429 Too Many Requests'')) ''hi'' None (3 / 10) 8192
     = ''Error generating response: 429 Too Many Requests''"
proof (intro conjI)
  let ?f = "\<lambda>j::nat. Raises (ApiError ''429 Too Many Requests'') :: string outcome"
  show "call_with_retry ?f 4 = (Raises (ApiError ''429 Too Many Requests''), 4, [2, 3, 5, 9])"
    using call_with_retry_contract [of ?f] retry_signal_429 by simp
next
  let ?g = "\<lambda>j::nat. if j < 2 then Raises (ApiError ''503 Service Unavailable'')
                           else Returns ''ok''"
  have h: "(\<forall>j<2. retry_signal (?g j)) \<and> \<not> retry_signal (?g 2)"
    using retry_signal_503 by simp
  have "\<forall>k<4. (\<forall>j<k. retry_signal (?g j)) \<and> \<not> retry_signal (?g k)
          \<longrightarrow> call_with_retry ?g 4 = (?g k, k + 1, take k [2, 3, 5, 9])"
    by (rule conjunct1 [OF conjunct2 [OF call_with_retry_contract]])
  then have "(\<forall>j<2. retry_signal (?g j)) \<and> \<not> retry_signal (?g 2)
          \<longrightarrow> call_with_retry ?g 4 = (?g 2, 2 + 1, take 2 [2, 3, 5, 9])"
    by (elim allE [of _ 2]) simp
  with h have "call_with_retry ?g 4 = (?g 2, 2 + 1, take 2 [2, 3, 5, 9])"
    by (elim impE) assumption
  then show "call_with_retry ?g 4 = (Returns ''ok'', 3, [2, 3])"
    by (simp add: numeral_2_eq_2)
next
  let ?gc = "\<lambda>(req::request) (j::nat). Raises (ApiError ''429 Too Many Requests'') :: response outcome"
  show "generate ?gc ''hi'' None (3 / 10) 8192
     = ''Error generating response: 429 Too Many Requests''"
    using call_with_retry_contract [of "\<lambda>j. Returns ''x''" ?gc "''hi''" None "3 / 10" 8192] retry_signal_429
    by simp
qed

section \<open>Properties of the document analysis\<close>

lemma upload_attempt_exhausted:
  assumes "\<forall>j<4. retry_signal (upl j)"
  shows "\<exists>e. upl 3 = Raises e \<and> upload_attempt None upl = Inl e"
proof -
  obtain e where "upl 3 = Raises e" "call_with_retry upl 4 = (Raises e, 4, [2, 3, 5, 9])"
    using call_with_retry_exhausts [OF assms] by blast
  then show ?thesis by (simp add: upload_attempt_def)
qed

lemma sublist_fallback_prompt: "sublist t (fallback_prompt filename t query)"
  unfolding fallback_prompt_def by (metis sublist_appendI append.assoc)

lemma spec_truncate_eq:
  "spec_truncate t
   = (if length t > MAX_TEXT_CHARS then take MAX_TEXT_CHARS t @ truncation_marker else t)"
  by (simp only: spec_truncate_def MAX_TEXT_CHARS_def truncation_marker_def)

lemma analyze_document_text:
  assumes "upload_attempt tmp_write upl = Inl upload_err" and "extract_pdf_text reader \<noteq> []"
  shows "analyze_document gc tmp_write upl reader query filename
           = generate gc (fallback_prompt filename (spec_truncate (extract_pdf_text reader)) query)
               (Some document_analyst_instruction) (1 / 5) 8192"
  using assms by (simp only: analyze_document_def spec_truncate_eq Let_def sum.case if_False)

lemma analyze_document_no_text:
  assumes "upload_attempt tmp_write upl = Inl upload_err" and "extract_pdf_text reader = []"
  shows "analyze_document gc tmp_write upl reader query filename
           = ''Error analyzing document: '' @ exn_str upload_err @ ''\<newline>\<newline>''
             @ ''Additionally, could not extract text from the PDF for a ''
             @ ''fallback analysis.  Please try again in a minute.''"
  using assms by (simp only: analyze_document_def Let_def sum.case simp_thms if_True)

text \<open>
  C6. When the upload attempt of \<open>analyze_document\<close> ends in an exception (writing the
  temporary file, the upload under the retry helper, or reading the response's text;
  with four rate-limit errors in a row it is the last of them), the result depends on the
  local text extraction. Non-empty text: the result is that of \<open>generate\<close> on the
  fallback prompt, which contains the extracted text, cut to its first 60000 characters
  with the truncation marker appended when it is longer. Empty text: the result is the
  combined failure message, which names the upload error, reports that no text could be
  extracted and advises to try again; it is not empty.
\<close>

theorem analyze_document_fallback:
  assumes "upload_attempt tmp_write upl = Inl upload_err"
  shows "(extract_pdf_text reader \<noteq> [] \<longrightarrow>
            analyze_document gc tmp_write upl reader query filename
              = generate gc (fallback_prompt filename (spec_truncate (extract_pdf_text reader)) query)
                  (Some document_analyst_instruction) (1 / 5) 8192
            \<and> sublist (spec_truncate (extract_pdf_text reader))
                 (fallback_prompt filename (spec_truncate (extract_pdf_text reader)) query))
       \<and> (extract_pdf_text reader = [] \<longrightarrow>
            analyze_document gc tmp_write upl reader query filename
              = ''Error analyzing document: '' @ exn_str upload_err @ ''\<newline>\<newline>''
                @ ''Additionally, could not extract text from the PDF for a ''
                @ ''fallback analysis.  Please try again in a minute.''
            \<and> analyze_document gc tmp_write upl reader query filename \<noteq> [])
       \<and> (tmp_write = None \<and> (\<forall>j<4. retry_signal (upl j)) \<longrightarrow> upl 3 = Raises upload_err)"
proof (intro conjI impI)
  assume t: "extract_pdf_text reader \<noteq> []"
  show "analyze_document gc tmp_write upl reader query filename
              = generate gc (fallback_prompt filename (spec_truncate (extract_pdf_text reader)) query)
                  (Some document_analyst_instruction) (1 / 5) 8192"
    by (rule analyze_document_text [OF assms t])
  show "sublist (spec_truncate (extract_pdf_text reader))
                 (fallback_prompt filename (spec_truncate (extract_pdf_text reader)) query)"
    by (rule sublist_fallback_prompt)
next
  assume t: "extract_pdf_text reader = []"
  show m: "analyze_document gc tmp_write upl reader query filename
              = ''Error analyzing document: '' @ exn_str upload_err @ ''\<newline>\<newline>''
                @ ''Additionally, could not extract text from the PDF for a ''
                @ ''fallback analysis.  Please try again in a minute.''"
    by (rule analyze_document_no_text [OF assms t])
  show "analyze_document gc tmp_write upl reader query filename \<noteq> []"
    unfolding m by simp
next
  assume "tmp_write = None \<and> (\<forall>j<4. retry_signal (upl j))"
  then show "upl 3 = Raises upload_err"
    using upload_attempt_exhausted [of upl] assms by auto
qed

text \<open>
  Witnesses: an upload that is rate-limited four times, with a file of one page of text
  and one page without, and with a file that PyPDF2 cannot open.
\<close>

theorem analyze_document_fallback_witness:
  "upload_attempt None (\<lambda>j. Raises (ApiError ''429 Too Many Requests'')) 
     = Inl (ApiError ''429 Too Many Requests'')
   \<and> analyze_document (\<lambda>req j. Returns (Inr ''Revenue grew.'')) None
        (\<lambda>j. Raises (ApiError ''429 Too Many Requests''))
        (Returns [Returns (Some ''Revenue 10''), Returns None]) ''Revenue?'' ''10k.pdf''
      = ''Revenue grew.''
   \<and> analyze_document (\<lambda>req j. Returns (Inr ''Revenue grew.'')) None
        (\<lambda>j. Raises (ApiError ''429 Too Many Requests''))
        (Raises (ValueError ''not a PDF'')) ''Revenue?'' ''10k.pdf''
      = ''Error analyzing document: 429 Too Many Requests\<newline>\<newline>''
        @ ''Additionally, could not extract text from the PDF for a ''
        @ ''fallback analysis.  Please try again in a minute.''"
proof -
  let ?upl = "\<lambda>j::nat. Raises (ApiError ''429 Too Many Requests'') :: response outcome"
  let ?gc = "\<lambda>(req::request) (j::nat). Returns (Inr ''Revenue grew.'') :: response outcome"
  let ?pdf = "Returns [Returns (Some ''Revenue 10''), Returns None] :: pdf_reader"
  have sig: "\<forall>j<4. retry_signal (?upl j)" by (simp add: retryable_def)
  have u: "upload_attempt None ?upl = Inl (ApiError ''429 Too Many Requests'')"
    using upload_attempt_exhausted [OF sig] by simp
  have t: "extract_pdf_text ?pdf \<noteq> []" by code_simp
  have g: "generate ?gc p si tm mx = ''Revenue grew.''" for p si tm mx
    by (simp add: generate_def call_with_retry_def retry_from_returns)
  have e: "extract_pdf_text (Raises (ValueError ''not a PDF'')) = []"
    by (simp add: extract_pdf_text_def)
  from analyze_document_fallback [OF u, of ?pdf ?gc "''Revenue?''" "''10k.pdf''"] t g
  have 1: "analyze_document ?gc None ?upl ?pdf ''Revenue?'' ''10k.pdf'' = ''Revenue grew.''"
    by simp
  from analyze_document_fallback [OF u, of "Raises (ValueError ''not a PDF'')" ?gc "''Revenue?''" "''10k.pdf''"] e
  have 2: "analyze_document ?gc None ?upl (Raises (ValueError ''not a PDF'')) ''Revenue?'' ''10k.pdf''
      = ''Error analyzing document: 429 Too Many Requests\<newline>\<newline>''
        @ ''Additionally, could not extract text from the PDF for a ''
        @ ''fallback analysis.  Please try again in a minute.''"
    by simp
  from u 1 2 show ?thesis by (intro conjI)
qed

end
